theory Spec2Isabelle
  imports Complex_Main "HOL-Library.Sublist"
begin

section \<open>Script 3: URLs of the daily Parquet files (loaddata3.py)\<close>

text \<open>
  \<^verbatim>\<open>generer_urls_parquet_quotidien(annee_debut, annee_fin)\<close> first collects period labels
  in the list \<^verbatim>\<open>periodes\<close> through four independent \<^verbatim>\<open>if\<close> statements, each appending
  to the list built so far, and then walks that list once, appending one raw and one
  prepared URL per label. Python integers are unbounded, hence \<open>int\<close>.
\<close>

definition base_url :: string where
  "base_url = ''https://object.files.data.gouv.fr/meteofrance-mistermeteo/''"

text \<open>The value of the local variable \<^verbatim>\<open>periodes\<close> when the loop starts.\<close>

definition periodes :: "int \<Rightarrow> int \<Rightarrow> string list" where
  "periodes annee_debut annee_fin =
    (let p0 = [];
         p1 = (if annee_debut \<le> 1949 then p0 @ [''previous-1950''] else p0);
         p2 = (if annee_debut \<le> 1989 \<and> annee_fin \<ge> 1950
               then p1 @ [''1950-1959'', ''1960-1969'', ''1970-1979'', ''1980-1989'']
               else p1);
         p3 = (if annee_debut \<le> 2021 \<and> annee_fin \<ge> 1990
               then p2 @ [''1990-1999'', ''2000-2009'', ''2010-2019'', ''2020-2021'']
               else p2);
         p4 = (if annee_fin \<ge> 2022
               then p3 @ [''latest-2022-2023'', ''latest-2023-2024'', ''latest-2024-2025'']
               else p3)
     in p4)"

definition url_brut :: "string \<Rightarrow> string" where
  "url_brut periode = base_url @ ''quotidien.'' @ periode @ ''.parquet''"

definition url_prepared :: "string \<Rightarrow> string" where
  "url_prepared periode = base_url @ ''quotidien.'' @ periode @ ''.prepared.parquet''"

text \<open>
  The \<^verbatim>\<open>for periode in periodes\<close> loop; the state is the pair of lists
  \<^verbatim>\<open>urls\<close>, \<^verbatim>\<open>urls_prepared\<close>, each extended at its end in every iteration.
\<close>

fun urls_loop :: "string list \<Rightarrow> string list \<times> string list \<Rightarrow> string list \<times> string list" where
  "urls_loop [] (urls, urls_prepared) = (urls, urls_prepared)"
| "urls_loop (periode # rest) (urls, urls_prepared) =
     urls_loop rest (urls @ [url_brut periode], urls_prepared @ [url_prepared periode])"

definition generer_urls_parquet_quotidien :: "int \<Rightarrow> int \<Rightarrow> string list \<times> string list" where
  "generer_urls_parquet_quotidien annee_debut annee_fin =
     urls_loop (periodes annee_debut annee_fin) ([], [])"

text \<open>
  The provider's twelve period labels in chronological order, as the source lists them
  from top to bottom. Used only to state the ordering property.
\<close>

definition chronologie :: "string list" where
  "chronologie =
    [''previous-1950'',
     ''1950-1959'', ''1960-1969'', ''1970-1979'', ''1980-1989'',
     ''1990-1999'', ''2000-2009'', ''2010-2019'', ''2020-2021'',
     ''latest-2022-2023'', ''latest-2023-2024'', ''latest-2024-2025'']"

section \<open>Script 2: cumulated growing degree days (loaddata2.py)\<close>

text \<open>
  Temperatures are Python floats; they are modelled as exact reals, so rounding of the
  floating-point operations is outside the model. The statements below are those that
  do not rest on it: which operations are applied to which day, the floor at zero, and
  which days enter the sum. A property whose truth depends on the rounding or on the
  order of the float64 reduction of \<^verbatim>\<open>Series.sum\<close> (such as exact additivity over a
  split, or monotonicity of the rounded sum) is not stated in this model.

  A JSON \<^verbatim>\<open>null\<close> in a temperature list becomes \<^verbatim>\<open>NaN\<close> in the data frame; it is
  modelled as \<open>None\<close>. Element-wise arithmetic and \<^verbatim>\<open>clip\<close> keep a \<^verbatim>\<open>NaN\<close>, and
  \<^verbatim>\<open>Series.sum\<close> (default \<^verbatim>\<open>skipna=True\<close>) leaves it out.
\<close>

record date =
  year :: int
  month :: int
  day :: int

record params =
  latitude :: real
  longitude :: real
  start_date :: date
  end_date :: date
  daily :: string
  timezone :: string

text \<open>
  The object under the key \<^verbatim>\<open>'daily'\<close> of the reply, with the three lists the code
  reads. The three keys are taken as present and the entries of \<^verbatim>\<open>'time'\<close> as dates
  that \<^verbatim>\<open>pd.to_datetime\<close> accepts; a temperature is a number or \<^verbatim>\<open>null\<close>.
\<close>

record daily_block =
  time :: "date list"
  temperature_2m_max :: "real option list"
  temperature_2m_min :: "real option list"

text \<open>
  What \<^verbatim>\<open>requests.get(url, params=params)\<close> followed by \<^verbatim>\<open>response.json()\<close> can give:
  the request raises, the body is not JSON, or the body is a JSON object that has a
  \<^verbatim>\<open>'daily'\<close> entry or lacks it (the service's error object has none).
\<close>

datatype http_result = RequestFailed | BodyNotJson | Body "daily_block option"

text \<open>
  The exceptions of the paths that are modelled; the source catches none and defines
  none of its own. Not modelled, because the input types leave them out: a target date
  that \<^verbatim>\<open>pd.to_datetime\<close> rejects, a JSON body that is not an object, a daily block
  that lacks one of its three keys, and a time entry that is not a date. The list is
  therefore not a list of all the failures of the source.
\<close>

datatype error = RequestException | JSONDecodeError | KeyError | ValueError

definition series_add :: "real option list \<Rightarrow> real option list \<Rightarrow> real option list" where
  "series_add xs ys =
     map2 (\<lambda>a b. case a of None \<Rightarrow> None | Some x \<Rightarrow> map_option (\<lambda>y. x + y) b) xs ys"

definition series_div :: "real option list \<Rightarrow> real \<Rightarrow> real option list" where
  "series_div xs c = map (map_option (\<lambda>x. x / c)) xs"

definition series_sub :: "real option list \<Rightarrow> real \<Rightarrow> real option list" where
  "series_sub xs c = map (map_option (\<lambda>x. x - c)) xs"

definition clip_lower :: "real option list \<Rightarrow> real \<Rightarrow> real option list" where
  "clip_lower xs lower = map (map_option (\<lambda>x. max lower x)) xs"

definition series_sum :: "real option list \<Rightarrow> real" where
  "series_sum xs = sum_list (map (\<lambda>v. case v of None \<Rightarrow> 0 | Some x \<Rightarrow> x) xs)"

text \<open>The columns \<^verbatim>\<open>temps['t_mean']\<close> and \<^verbatim>\<open>temps['gdd_daily']\<close>, and \<^verbatim>\<open>gdd_cumul\<close>.\<close>

definition t_mean :: "real option list \<Rightarrow> real option list \<Rightarrow> real option list" where
  "t_mean t_max t_min = series_div (series_add t_max t_min) 2"

definition gdd_daily :: "real \<Rightarrow> real option list \<Rightarrow> real option list \<Rightarrow> real option list" where
  "gdd_daily t_base t_max t_min = clip_lower (series_sub (t_mean t_max t_min) t_base) 0"

definition gdd_cumul :: "real \<Rightarrow> real option list \<Rightarrow> real option list \<Rightarrow> real" where
  "gdd_cumul t_base t_max t_min = series_sum (gdd_daily t_base t_max t_min)"

text \<open>
  The dictionary \<^verbatim>\<open>params\<close> of the request: the range starts on January 1 of the
  target date's year and ends on the target date. The target date is taken already
  parsed.
\<close>

definition build_params :: "real \<Rightarrow> real \<Rightarrow> date \<Rightarrow> params" where
  "build_params lat lon d =
    (let start = \<lparr>year = year d, month = 1, day = 1\<rparr>
     in \<lparr>latitude = lat, longitude = lon, start_date = start, end_date = d,
         daily = ''temperature_2m_max,temperature_2m_min'', timezone = ''auto''\<rparr>)"

text \<open>
  The whole function. The remote service is the parameter \<open>api\<close>.
  \<^verbatim>\<open>pd.DataFrame\<close> raises \<^verbatim>\<open>ValueError\<close> when the three columns differ in length.
\<close>

definition get_gdd_from_open_meteo ::
  "(params \<Rightarrow> http_result) \<Rightarrow> real \<Rightarrow> real \<Rightarrow> date \<Rightarrow> real \<Rightarrow> error + real" where
  "get_gdd_from_open_meteo api lat lon d t_base =
    (case api (build_params lat lon d) of
       RequestFailed \<Rightarrow> Inl RequestException
     | BodyNotJson \<Rightarrow> Inl JSONDecodeError
     | Body None \<Rightarrow> Inl KeyError
     | Body (Some blk) \<Rightarrow>
         if length (temperature_2m_max blk) = length (time blk)
            \<and> length (temperature_2m_min blk) = length (time blk)
         then Inr (gdd_cumul t_base (temperature_2m_max blk) (temperature_2m_min blk))
         else Inl ValueError)"

text \<open>
  The specification's wording of the computation, for comparison with the code:
  one day's contribution, and the sum over a series of days \<open>(t_max, t_min)\<close>.
\<close>

definition spec_gdd_day :: "real \<Rightarrow> real \<times> real \<Rightarrow> real" where
  "spec_gdd_day t_base d = max 0 ((fst d + snd d) / 2 - t_base)"

definition spec_gdd_sum :: "real \<Rightarrow> (real \<times> real) list \<Rightarrow> real" where
  "spec_gdd_sum t_base days = (\<Sum>d\<leftarrow>days. spec_gdd_day t_base d)"

text \<open>
  Inputs used in the examples below: a service that gives the same reply to every
  request, a reply whose second day has no record (JSON \<^verbatim>\<open>null\<close> in both lists),
  and a reply with no day at all.
\<close>

definition service_replying :: "http_result \<Rightarrow> params \<Rightarrow> http_result" where
  "service_replying r ps = r"

definition reply_with_gap :: http_result where
  "reply_with_gap =
     Body (Some \<lparr>time = [\<lparr>year = 2023, month = 1, day = 1\<rparr>,
                          \<lparr>year = 2023, month = 1, day = 2\<rparr>],
                  temperature_2m_max = [Some 20, None],
                  temperature_2m_min = [Some 10, None]\<rparr>)"

definition reply_empty :: http_result where
  "reply_empty = Body (Some \<lparr>time = [], temperature_2m_max = [], temperature_2m_min = []\<rparr>)"

section \<open>Helper lemmas\<close>

lemma urls_loop_map:
  "urls_loop ps (us, vs) = (us @ map url_brut ps, vs @ map url_prepared ps)"
  by (induction ps arbitrary: us vs) simp_all

lemma generer_map:
  "generer_urls_parquet_quotidien a b =
     (map url_brut (periodes a b), map url_prepared (periodes a b))"
  by (simp add: generer_urls_parquet_quotidien_def urls_loop_map)

lemma inj_url_brut: "inj url_brut"
  by (simp add: inj_def url_brut_def)

lemma inj_url_prepared: "inj url_prepared"
  by (simp add: inj_def url_prepared_def)

lemma periodes_blocks:
  "periodes a b =
     (if a \<le> 1949 then [''previous-1950''] else []) @
     (if a \<le> 1989 \<and> b \<ge> 1950
      then [''1950-1959'', ''1960-1969'', ''1970-1979'', ''1980-1989''] else []) @
     (if a \<le> 2021 \<and> b \<ge> 1990
      then [''1990-1999'', ''2000-2009'', ''2010-2019'', ''2020-2021''] else []) @
     (if b \<ge> 2022
      then [''latest-2022-2023'', ''latest-2023-2024'', ''latest-2024-2025''] else [])"
  by (simp add: periodes_def)

lemma chronologie_blocks:
  "chronologie =
     [''previous-1950''] @
     [''1950-1959'', ''1960-1969'', ''1970-1979'', ''1980-1989''] @
     [''1990-1999'', ''2000-2009'', ''2010-2019'', ''2020-2021''] @
     [''latest-2022-2023'', ''latest-2023-2024'', ''latest-2024-2025'']"
  by (simp add: chronologie_def)

lemma subseq_if_block: "subseq (if c then xs else []) xs"
  by simp

lemma periodes_subseq: "subseq (periodes a b) chronologie"
  unfolding periodes_blocks chronologie_blocks
  by (intro list_emb_append_mono subseq_if_block)

lemma distinct_chronologie: "distinct chronologie"
  by (simp add: chronologie_def)

lemma periodes_distinct: "distinct (periodes a b)"
proof -
  have "periodes a b \<in> set (subseqs chronologie)"
    using periodes_subseq by simp
  then show ?thesis
    using distinct_chronologie by (rule subseqs_distinctD)
qed

lemma gdd_daily_zip:
  "gdd_daily t_base t_max t_min =
     map (\<lambda>r. case r of (Some a, Some b) \<Rightarrow> Some (spec_gdd_day t_base (a, b)) | _ \<Rightarrow> None)
       (zip t_max t_min)"
  by (auto simp: gdd_daily_def t_mean_def clip_lower_def series_sub_def series_div_def
      series_add_def spec_gdd_day_def split: option.splits)

lemma gdd_cumul_present:
  "gdd_cumul t_base t_max t_min =
     spec_gdd_sum t_base [(a, b). (Some a, Some b) \<leftarrow> zip t_max t_min]"
proof -
  have "series_sum
          (map (\<lambda>r. case r of (Some a, Some b) \<Rightarrow> Some (spec_gdd_day t_base (a, b))
                              | _ \<Rightarrow> None) zs) =
        spec_gdd_sum t_base [(a, b). (Some a, Some b) \<leftarrow> zs]" for zs
    by (induction zs) (auto simp: series_sum_def spec_gdd_sum_def split: option.splits)
  then show ?thesis
    by (simp add: gdd_cumul_def gdd_daily_zip)
qed

lemma gdd_cumul_values:
  "gdd_cumul t_base (map (Some \<circ> fst) days) (map (Some \<circ> snd) days) = spec_gdd_sum t_base days"
  unfolding gdd_cumul_present
  by (induction days) (simp_all add: spec_gdd_sum_def)

lemmas gdd_eval =
  get_gdd_from_open_meteo_def gdd_cumul_def gdd_daily_def t_mean_def clip_lower_def
  series_sub_def series_div_def series_add_def series_sum_def

section \<open>The growing-degree-day accumulator\<close>

text \<open>
  C1. For every daily series of \<open>(t_max, t_min)\<close> values and every base temperature, the
  function returns exactly the sum over the days of
  \<open>max 0 ((t_max + t_min) / 2 - t_base)\<close>. The series is the reply of the service to the
  request built by the function: its two temperature lists hold the values of \<open>days\<close>,
  and its time list has one entry per day.
\<close>

theorem get_gdd_is_sum_of_daily:
  assumes "api (build_params lat lon d) = Body (Some blk)"
    and "temperature_2m_max blk = map (Some \<circ> fst) days"
    and "temperature_2m_min blk = map (Some \<circ> snd) days"
    and "length (time blk) = length days"
  shows "get_gdd_from_open_meteo api lat lon d t_base =
         Inr (\<Sum>(t_max, t_min)\<leftarrow>days. max 0 ((t_max + t_min) / 2 - t_base))"
proof -
  have "get_gdd_from_open_meteo api lat lon d t_base = Inr (spec_gdd_sum t_base days)"
    using assms by (simp add: get_gdd_from_open_meteo_def gdd_cumul_values)
  also have "spec_gdd_sum t_base days =
      (\<Sum>(t_max, t_min)\<leftarrow>days. max 0 ((t_max + t_min) / 2 - t_base))"
    unfolding spec_gdd_sum_def
    by (rule arg_cong [where f = sum_list], rule map_cong)
       (auto simp: spec_gdd_day_def)
  finally show ?thesis .
qed

theorem get_gdd_is_sum_of_daily_witness:
  "get_gdd_from_open_meteo
     (\<lambda>_. Body (Some \<lparr>time = [\<lparr>year = 2023, month = 1, day = 1\<rparr>,
                               \<lparr>year = 2023, month = 1, day = 2\<rparr>],
                       temperature_2m_max = [Some 20, Some 10],
                       temperature_2m_min = [Some 10, Some 0]\<rparr>))
     48.8 2.49 \<lparr>year = 2023, month = 1, day = 2\<rparr> 5 = Inr 10"
  using get_gdd_is_sum_of_daily
    [of "\<lambda>_. Body (Some \<lparr>time = [\<lparr>year = 2023, month = 1, day = 1\<rparr>,
                               \<lparr>year = 2023, month = 1, day = 2\<rparr>],
                       temperature_2m_max = [Some 20, Some 10],
                       temperature_2m_min = [Some 10, Some 0]\<rparr>)"
        "48.8" "2.49" "\<lparr>year = 2023, month = 1, day = 2\<rparr>"
        "\<lparr>time = [\<lparr>year = 2023, month = 1, day = 1\<rparr>, \<lparr>year = 2023, month = 1, day = 2\<rparr>],
          temperature_2m_max = [Some 20, Some 10],
          temperature_2m_min = [Some 10, Some 0]\<rparr>"
        "[(20, 10), (10, 0)]" 5]
  by simp

text \<open>
  C3. The daily contribution is never negative: on every day that has both
  temperatures, whatever they are (in particular when \<open>t_max \<ge> t_min\<close>) and whatever the
  base temperature, the entry of the column \<open>gdd_daily\<close> is a number greater than or
  equal to zero.
\<close>

theorem gdd_daily_nonneg:
  assumes "i < length t_max" and "i < length t_min"
    and "t_max ! i = Some a" and "t_min ! i = Some b"
  shows "\<exists>g. gdd_daily t_base t_max t_min ! i = Some g \<and> 0 \<le> g"
  using assms by (simp add: gdd_daily_zip spec_gdd_day_def)

theorem gdd_daily_nonneg_witness:
  "\<exists>g. gdd_daily 5 [Some 20, Some 2] [Some 10, Some (- 4)] ! 1 = Some g \<and> 0 \<le> g"
  using gdd_daily_nonneg [of 1 "[Some 20, Some 2]" "[Some 10, Some (- 4)]" 2 "- 4" 5]
  by simp

text \<open>
  C2, as the code has it. When the reply of the service has no record (\<^verbatim>\<open>null\<close>) for
  some days of the requested range, or holds no day at all, the function does not fail:
  for every reply that carries a daily block with three lists of the same length it
  returns the sum of the daily contributions over the days that have both
  temperatures. A day without record is left out, and an empty series gives 0.
\<close>

theorem get_gdd_skips_missing_records:
  assumes "api (build_params lat lon d) = Body (Some blk)"
    and "length (temperature_2m_max blk) = length (time blk)"
    and "length (temperature_2m_min blk) = length (time blk)"
  shows "get_gdd_from_open_meteo api lat lon d t_base =
         Inr (\<Sum>(t_max, t_min)\<leftarrow>[(a, b). (Some a, Some b) \<leftarrow>
                   zip (temperature_2m_max blk) (temperature_2m_min blk)].
                max 0 ((t_max + t_min) / 2 - t_base))"
proof -
  have "spec_gdd_sum t_base days =
      (\<Sum>(t_max, t_min)\<leftarrow>days. max 0 ((t_max + t_min) / 2 - t_base))" for days
    unfolding spec_gdd_sum_def
    by (rule arg_cong [where f = sum_list], rule map_cong)
       (auto simp: spec_gdd_day_def)
  then show ?thesis
    using assms by (simp add: get_gdd_from_open_meteo_def gdd_cumul_present)
qed

theorem get_gdd_skips_missing_records_witness:
  "get_gdd_from_open_meteo (service_replying reply_with_gap) 48.8 2.49
     \<lparr>year = 2023, month = 1, day = 2\<rparr> 5 = Inr 10"
  using get_gdd_skips_missing_records [of "service_replying reply_with_gap" "48.8" "2.49"
      "\<lparr>year = 2023, month = 1, day = 2\<rparr>"
      "\<lparr>time = [\<lparr>year = 2023, month = 1, day = 1\<rparr>, \<lparr>year = 2023, month = 1, day = 2\<rparr>],
        temperature_2m_max = [Some 20, None],
        temperature_2m_min = [Some 10, None]\<rparr>" 5]
  by (simp add: service_replying_def reply_with_gap_def)

text \<open>
  C2 as stated fails: with no record for the second day of the requested range the
  function returns 10 instead of failing, and with an empty series it returns 0.
\<close>

theorem get_gdd_no_typed_failure_counterexample:
  "get_gdd_from_open_meteo (service_replying reply_with_gap) 48.8 2.49
     \<lparr>year = 2023, month = 1, day = 2\<rparr> 5 = Inr 10
   \<and> get_gdd_from_open_meteo (service_replying reply_empty) 48.8 2.49
     \<lparr>year = 2023, month = 1, day = 2\<rparr> 5 = Inr 0"
  by (simp add: gdd_eval service_replying_def reply_with_gap_def reply_empty_def)

section \<open>The URL generator\<close>

text \<open>
  C6. For the year range (1990, 2020) the labels are exactly 1990-1999, 2000-2009,
  2010-2019 and 2020-2021, each once, and the prepared URLs are those of these four
  labels.
\<close>

theorem labels_1990_2020:
  "periodes 1990 2020 = [''1990-1999'', ''2000-2009'', ''2010-2019'', ''2020-2021'']
   \<and> set (periodes 1990 2020) = {''1990-1999'', ''2000-2009'', ''2010-2019'', ''2020-2021''}
   \<and> distinct (periodes 1990 2020)
   \<and> snd (generer_urls_parquet_quotidien 1990 2020) =
       [''https://object.files.data.gouv.fr/meteofrance-mistermeteo/quotidien.1990-1999.prepared.parquet'',
        ''https://object.files.data.gouv.fr/meteofrance-mistermeteo/quotidien.2000-2009.prepared.parquet'',
        ''https://object.files.data.gouv.fr/meteofrance-mistermeteo/quotidien.2010-2019.prepared.parquet'',
        ''https://object.files.data.gouv.fr/meteofrance-mistermeteo/quotidien.2020-2021.prepared.parquet'']"
proof -
  have p: "periodes 1990 2020 = [''1990-1999'', ''2000-2009'', ''2010-2019'', ''2020-2021'']"
    by (simp add: periodes_def)
  show ?thesis
    unfolding generer_map p
    by (simp add: url_prepared_def base_url_def)
qed

text \<open>
  C7. A year range that lies entirely before 1950 yields exactly one label,
  previous-1950, hence one raw and one prepared URL.
\<close>

theorem labels_before_1950:
  assumes "annee_debut \<le> annee_fin" and "annee_fin \<le> 1949"
  shows "periodes annee_debut annee_fin = [''previous-1950'']
         \<and> generer_urls_parquet_quotidien annee_debut annee_fin =
             ([url_brut ''previous-1950''], [url_prepared ''previous-1950''])"
proof -
  have "periodes annee_debut annee_fin = [''previous-1950'']"
    using assms by (simp add: periodes_def)
  then show ?thesis
    by (simp add: generer_map)
qed

theorem labels_before_1950_witness:
  "periodes 1900 1949 = [''previous-1950'']
   \<and> generer_urls_parquet_quotidien 1900 1949 =
       ([url_brut ''previous-1950''], [url_prepared ''previous-1950''])"
  using labels_before_1950 [of 1900 1949] by simp

text \<open>
  C8. For every year range the two returned lists hold, label by label and in the order
  of the labels, the raw URL and the prepared URL of each selected label; both have as
  many entries as there are labels.
\<close>

theorem two_urls_per_label:
  "generer_urls_parquet_quotidien annee_debut annee_fin =
     (map (\<lambda>periode. base_url @ ''quotidien.'' @ periode @ ''.parquet'')
        (periodes annee_debut annee_fin),
      map (\<lambda>periode. base_url @ ''quotidien.'' @ periode @ ''.prepared.parquet'')
        (periodes annee_debut annee_fin))
   \<and> length (fst (generer_urls_parquet_quotidien annee_debut annee_fin)) =
       length (periodes annee_debut annee_fin)
   \<and> length (snd (generer_urls_parquet_quotidien annee_debut annee_fin)) =
       length (periodes annee_debut annee_fin)"
proof -
  have b: "url_brut = (\<lambda>periode. base_url @ ''quotidien.'' @ periode @ ''.parquet'')"
    by (rule ext) (simp add: url_brut_def)
  have p: "url_prepared = (\<lambda>periode. base_url @ ''quotidien.'' @ periode @ ''.prepared.parquet'')"
    by (rule ext) (simp add: url_prepared_def)
  show ?thesis
    unfolding generer_map by (simp add: b p)
qed

text \<open>
  C9. For every pair of integers the list of labels has no duplicate and follows the
  chronological order of the twelve known labels; both URL lists are free of
  duplicates as well.
\<close>

theorem labels_distinct_and_ordered:
  "distinct (periodes annee_debut annee_fin)
   \<and> subseq (periodes annee_debut annee_fin) chronologie
   \<and> distinct (fst (generer_urls_parquet_quotidien annee_debut annee_fin))
   \<and> distinct (snd (generer_urls_parquet_quotidien annee_debut annee_fin))"
proof -
  have "inj_on url_brut (set (periodes annee_debut annee_fin))"
    using inj_url_brut by (rule inj_on_subset) simp
  moreover have "inj_on url_prepared (set (periodes annee_debut annee_fin))"
    using inj_url_prepared by (rule inj_on_subset) simp
  ultimately show ?thesis
    by (simp add: generer_map distinct_map periodes_distinct periodes_subseq)
qed

text \<open>
  C10. The function checks nothing about its arguments and has no failing path (its
  result is always a pair of lists). For the empty range 2000 to 1990 it returns the four
  URLs of 1990-1999, 2000-2009, 2010-2019 and 2020-2021 in each list, not an empty
  result.
\<close>

theorem empty_range_2000_1990_gives_urls:
  "generer_urls_parquet_quotidien 2000 1990 =
     (map url_brut [''1990-1999'', ''2000-2009'', ''2010-2019'', ''2020-2021''],
      map url_prepared [''1990-1999'', ''2000-2009'', ''2010-2019'', ''2020-2021''])
   \<and> fst (generer_urls_parquet_quotidien 2000 1990) \<noteq> []
   \<and> snd (generer_urls_parquet_quotidien 2000 1990) \<noteq> []"
proof -
  have p: "periodes 2000 1990 = [''1990-1999'', ''2000-2009'', ''2010-2019'', ''2020-2021'']"
    by (simp add: periodes_def)
  show ?thesis
    unfolding generer_map p by simp
qed

end
